theory Spec2Isabelle
  imports Complex_Main "HOL-Library.Extended_Nat"
begin

section \<open>Numbers\<close>

text \<open>
  A JavaScript \<open>number\<close> is an IEEE double. It is modelled as the rational it denotes, and
  every division and multiplication the source performs on pixel sizes is followed by
  the rounding to the nearest double, written \<open>fl\<close>: 53 significant bits, a tie going to
  the even neighbour. The exponent range is not bounded in the model; the sizes and
  ratios the program computes stay far inside the range of normal doubles. Comparisons
  and \<open>Math.round\<close> are exact on doubles. Division by zero (\<open>Infinity\<close> or \<open>NaN\<close> in the
  source) is outside the model: the statements about dimensions assume a source image
  with positive width and height, which is what a decoded JPEG or PNG has. The quality
  fraction \<open>q / 100\<close> is only handed to the codec, which is an arbitrary function of it,
  and is kept as the quotient.
\<close>

type_synonym number = rat

text \<open>The binary exponent of a positive number: the \<open>e\<close> with \<open>2^e \<le> x < 2^(e+1)\<close>.\<close>

function log2_hi :: "rat \<Rightarrow> int" where
  "log2_hi x = (if x < 2 then 0 else 1 + log2_hi (x / 2))"
  by pat_completeness auto
termination
proof (relation "measure (\<lambda>x. nat \<lfloor>x\<rfloor>)")
  show "wf (measure (\<lambda>x :: rat. nat \<lfloor>x\<rfloor>))" by simp
next
  fix x :: rat
  assume "\<not> x < 2"
  then have "x / 2 < of_int \<lfloor>x\<rfloor>" "0 < \<lfloor>x\<rfloor>"
    using floor_correct [of x] by linarith+
  then have "\<lfloor>x / 2\<rfloor> < \<lfloor>x\<rfloor>" "0 < \<lfloor>x\<rfloor>" by (simp_all add: floor_less_iff)
  then show "(x / 2, x) \<in> measure (\<lambda>x. nat \<lfloor>x\<rfloor>)" by simp
qed

function log2_lo :: "rat \<Rightarrow> int" where
  "log2_lo x = (if x \<le> 0 \<or> 1 \<le> x then 0 else log2_lo (2 * x) - 1)"
  by pat_completeness auto
termination
proof (relation "measure (\<lambda>x. nat \<lfloor>1 / x\<rfloor>)")
  show "wf (measure (\<lambda>x :: rat. nat \<lfloor>1 / x\<rfloor>))" by simp
next
  fix x :: rat
  assume "\<not> (x \<le> 0 \<or> 1 \<le> x)"
  then have x: "0 < x" "x < 1" by simp_all
  then have "1 < 1 / x" by simp
  then have pos: "0 < \<lfloor>1 / x\<rfloor>" by (simp add: less_floor_iff)
  define y where "y = 1 / x"
  have "(1 :: rat) \<le> of_int \<lfloor>y\<rfloor>" using pos by (simp add: y_def)
  moreover have "y < of_int \<lfloor>y\<rfloor> + 1" using floor_correct [of y] by simp
  ultimately have "y / 2 < of_int \<lfloor>y\<rfloor>" by linarith
  moreover have "1 / (2 * x) = y / 2" by (simp add: y_def)
  ultimately have "\<lfloor>1 / (2 * x)\<rfloor> < \<lfloor>1 / x\<rfloor>" by (simp add: floor_less_iff y_def)
  with pos show "(2 * x, x) \<in> measure (\<lambda>x. nat \<lfloor>1 / x\<rfloor>)" by simp
qed

declare log2_hi.simps [simp del] log2_lo.simps [simp del]

definition pow2 :: "int \<Rightarrow> rat" where
  "pow2 e = (if 0 \<le> e then 2 ^ nat e else 1 / 2 ^ nat (- e))"

text \<open>The nearest integer, a tie going to the even one.\<close>

definition roundEven :: "rat \<Rightarrow> int" where
  "roundEven m =
     (let f = \<lfloor>m\<rfloor>; r = m - of_int f in
      if r < 1 / 2 then f else if 1 / 2 < r then f + 1 else if even f then f else f + 1)"

text \<open>
  The double nearest to \<open>x\<close>: the significand is scaled into \<open>[2^52, 2^53)\<close>, rounded to
  an integer and scaled back.
\<close>

definition fl :: "rat \<Rightarrow> number" where
  "fl x =
     (if x = 0 then 0
      else
        let a = \<bar>x\<bar>;
            e = (if 1 \<le> a then log2_hi a else log2_lo a) - 52
        in sgn x * of_int (roundEven (a / pow2 e)) * pow2 e)"

text \<open>\<open>Math.round\<close>: the nearest integer, a tie going up.\<close>

definition Math_round :: "number \<Rightarrow> number" where
  "Math_round x = of_int \<lfloor>x + 1 / 2\<rfloor>"

text \<open>\<open>Math.min\<close> on two finite numbers.\<close>

definition Math_min :: "number \<Rightarrow> number \<Rightarrow> number" where
  "Math_min a b = (if b < a then b else a)"

section \<open>Data\<close>

text \<open>An image element after its \<open>onload\<close>: the natural size of the bitmap.\<close>

record image =
  img_width :: number
  img_height :: number

text \<open>What \<open>getPresetSettings\<close> returns; \<open>targetSize\<close> is a byte count or \<open>Infinity\<close>,
  and a missing \<open>exactResize\<close> is falsy.\<close>

record settings =
  maxWidth :: number
  maxHeight :: number
  targetSize :: enat
  exactResize :: bool

section \<open>Preset table\<close>

text \<open>
  \<open>getPresetSettings\<close> closes over the component state \<open>customWidth\<close> and
  \<open>customHeight\<close>; they are the first two arguments here.
\<close>

definition getPresetSettings :: "number \<Rightarrow> number \<Rightarrow> string \<Rightarrow> settings" where
  "getPresetSettings customWidth customHeight preset =
     (if preset = ''etsy'' then
        \<lparr>maxWidth = 2000, maxHeight = 2000, targetSize = enat (500 * 1024), exactResize = False\<rparr>
      else if preset = ''shopee'' then
        \<lparr>maxWidth = 3000, maxHeight = 3000, targetSize = enat (2 * 1024 * 1024),
         exactResize = False\<rparr>
      else if preset = ''linkedin'' then
        \<lparr>maxWidth = 1584, maxHeight = 396, targetSize = enat (2 * 1024 * 1024),
         exactResize = True\<rparr>
      else if preset = ''custom'' then
        \<lparr>maxWidth = customWidth, maxHeight = customHeight, targetSize = \<infinity>,
         exactResize = False\<rparr>
      else
        \<lparr>maxWidth = 2000, maxHeight = 2000, targetSize = enat (500 * 1024),
         exactResize = False\<rparr>)"

text \<open>The typed preset names and the constant table \<open>PRESETS\<close> of the later variant.\<close>

datatype Preset = Etsy | Shopee | Linkedin | Custom

fun PRESETS :: "Preset \<Rightarrow> settings" where
  "PRESETS Etsy =
     \<lparr>maxWidth = 2000, maxHeight = 2000, targetSize = enat (500 * 1024), exactResize = False\<rparr>"
| "PRESETS Shopee =
     \<lparr>maxWidth = 3000, maxHeight = 3000, targetSize = enat (2 * 1024 * 1024),
      exactResize = False\<rparr>"
| "PRESETS Linkedin =
     \<lparr>maxWidth = 1584, maxHeight = 396, targetSize = enat (2 * 1024 * 1024),
      exactResize = True\<rparr>"
| "PRESETS Custom =
     \<lparr>maxWidth = 1920, maxHeight = 1080, targetSize = enat (1 * 1024 * 1024),
      exactResize = False\<rparr>"

section \<open>Dimension resolution\<close>

text \<open>
  \<open>resizeImage\<close>: the size it returns (and assigns to the canvas). The ratio is the
  smaller of the two quotients and is applied only when it is below one; the products
  are not rounded to integers.
\<close>

definition resizeImage :: "image \<Rightarrow> number \<Rightarrow> number \<Rightarrow> bool \<Rightarrow> number \<times> number" where
  "resizeImage img maxW maxH exact =
     (let width = img_width img; height = img_height img in
      if exact then (maxW, maxH)
      else
        let ratio = Math_min (fl (maxW / width)) (fl (maxH / height)) in
        if ratio < 1 then (fl (width * ratio), fl (height * ratio)) else (width, height))"

text \<open>
  The two assignments of \<open>compressImage\<close> that scale down, first on the width and then
  on the height; the source repeats them verbatim in its custom and in its preset branch.
  \<open>aspectRatio\<close> is the double the source computed as \<open>img.width / img.height\<close>.
\<close>

definition scaleDown :: "number \<Rightarrow> number \<Rightarrow> number \<Rightarrow> number \<times> number \<Rightarrow> number \<times> number" where
  "scaleDown aspectRatio maxW maxH wh =
     (let (width, height) = wh;
          (width, height) =
            (if width > maxW then (maxW, Math_round (fl (maxW / aspectRatio)))
             else (width, height));
          (width, height) =
            (if height > maxH then (Math_round (fl (maxH * aspectRatio)), maxH)
             else (width, height))
      in (width, height))"

text \<open>
  The size \<open>compressImage\<close> computes: the banner preset is forced to its fixed size, the
  custom preset fits within the user's bounds when they are passed, and every other case
  fits within the bounds of the table.
\<close>

definition compressImage_dims ::
  "image \<Rightarrow> Preset \<Rightarrow> (number \<times> number) option \<Rightarrow> number \<times> number" where
  "compressImage_dims img preset customDimensions =
     (if preset = Linkedin then (maxWidth (PRESETS Linkedin), maxHeight (PRESETS Linkedin))
      else if preset = Custom \<and> customDimensions \<noteq> None then
        (case customDimensions of
           Some (cw, ch) \<Rightarrow>
             scaleDown (fl (img_width img / img_height img)) cw ch
               (img_width img, img_height img))
      else
        scaleDown (fl (img_width img / img_height img))
          (maxWidth (PRESETS preset)) (maxHeight (PRESETS preset))
          (img_width img, img_height img))"

section \<open>The codec\<close>

text \<open>
  The canvas after \<open>resizeImage\<close> or \<open>compressImage\<close> has drawn on it: the size assigned
  to it and the image drawn.
\<close>

record canvas =
  cv_width :: number
  cv_height :: number
  cv_img :: image

text \<open>
  A \<open>Blob\<close> handed to the callback of \<open>canvas.toBlob\<close>: its MIME type, the quality
  argument it was encoded with, and its size in bytes.
\<close>

record blob =
  blob_type :: string
  blob_quality :: number
  blob_size :: nat

text \<open>
  The lossy codec is a collaborator of the program, not part of it: a function from the
  canvas, the MIME type and the quality (between 0 and 1) to the number of bytes it
  produces, or \<open>None\<close> where the browser hands \<open>null\<close> to the callback.
\<close>

type_synonym codec = "canvas \<Rightarrow> string \<Rightarrow> number \<Rightarrow> nat option"

definition toBlob :: "codec \<Rightarrow> canvas \<Rightarrow> string \<Rightarrow> number \<Rightarrow> blob option" where
  "toBlob enc cv mime q =
     map_option (\<lambda>n. \<lparr>blob_type = mime, blob_quality = q, blob_size = n\<rparr>) (enc cv mime q)"

text \<open>
  Errors thrown at run time. \<open>TypeError\<close> is what reading \<open>.size\<close> of \<open>null\<close> or
  \<open>URL.createObjectURL(null)\<close> throws; \<open>Error\<close> carries the message it was created with.
\<close>

datatype js_error = TypeError | Error string

text \<open>How a promise ends: resolved, rejected, or never settled.\<close>

datatype 'a promise = Resolved 'a | Rejected js_error | Pending

section \<open>Quality search\<close>

record searchResult =
  sr_blob :: blob
  finalQuality :: number

text \<open>
  \<open>compressToTargetSize\<close>: a \<open>do \<dots> while (currentQuality > 50)\<close> loop. Each round
  encodes at the current quality; it leaves the loop when the blob fits or the quality is
  at most 50, otherwise it lowers the quality by 5 and the loop condition is tested on
  the lowered value. A \<open>null\<close> blob makes \<open>blob.size\<close> throw.
\<close>

function compressToTargetSize :: "codec \<Rightarrow> canvas \<Rightarrow> enat \<Rightarrow> number \<Rightarrow> js_error + searchResult" where
  "compressToTargetSize enc cv target currentQuality =
     (case toBlob enc cv ''image/jpeg'' (currentQuality / 100) of
        None \<Rightarrow> Inl TypeError
      | Some b \<Rightarrow>
          if enat (blob_size b) \<le> target \<or> currentQuality \<le> 50 then
            Inr \<lparr>sr_blob = b, finalQuality = currentQuality\<rparr>
          else if currentQuality - 5 > 50 then
            compressToTargetSize enc cv target (currentQuality - 5)
          else Inr \<lparr>sr_blob = b, finalQuality = currentQuality - 5\<rparr>)"
  by pat_completeness auto
termination
proof (relation "measure (\<lambda>(enc, cv, target, q). nat \<lceil>q\<rceil>)")
  show "wf (measure (\<lambda>(enc, cv, target, q). nat \<lceil>q :: number\<rceil>))" by simp
next
  fix enc :: codec and cv :: canvas and target :: enat and q :: number and b :: blob
  assume "50 < q - 5"
  then have "0 < \<lceil>q\<rceil>" "\<lceil>q - 5\<rceil> = \<lceil>q\<rceil> - 5" by (simp_all add: less_ceiling_iff)
  then show "((enc, cv, target, q - 5), (enc, cv, target, q))
    \<in> measure (\<lambda>(enc, cv, target, q). nat \<lceil>q\<rceil>)" by simp
qed

declare compressToTargetSize.simps [simp del]

section \<open>Application state\<close>

record File =
  file_name :: string
  file_type :: string
  file_size :: nat

record imageData =
  id_file :: File
  id_dataUrl :: string
  id_width :: number
  id_height :: number
  id_size :: nat

record compressedImage =
  ci_blob :: blob
  ci_dataUrl :: string
  ci_width :: number
  ci_height :: number
  ci_size :: nat

text \<open>
  What the functions of one render read through their closure: the state as it was when
  the component rendered.
\<close>

record 'p render =
  rd_originalImage :: "imageData option"
  rd_selectedPreset :: 'p
  rd_quality :: number
  rd_customWidth :: number
  rd_customHeight :: number

text \<open>
  The \<open>useState\<close> cells of the component that the compression handlers read or write.
  The selected preset is a plain string in one variant and the union type in the other,
  hence the type parameter. \<open>recompressionTimeout\<close> is \<open>None\<close> for \<open>null\<close>; a pending
  debounce timer is represented by the render whose \<open>recompressImage\<close> its callback
  calls.
\<close>

record 'p appState =
  originalImage :: "imageData option"
  compressedImage :: "compressedImage option"
  selectedPreset :: 'p
  quality :: number
  isProcessing :: bool
  error :: "string option"
  customWidth :: number
  customHeight :: number
  dimensionError :: "string option"
  recompressionTimeout :: "'p render option"

definition render_of :: "'p appState \<Rightarrow> 'p render" where
  "render_of st =
     \<lparr>rd_originalImage = originalImage st, rd_selectedPreset = selectedPreset st,
      rd_quality = quality st, rd_customWidth = customWidth st,
      rd_customHeight = customHeight st\<rparr>"

text \<open>
  The browser facilities the handlers call: the codec, \<open>URL.createObjectURL\<close>,
  \<open>canvas.toDataURL\<close>, and the decoding of a file into an image, which may fail; and the
  message texts the engine gives the \<open>TypeError\<close> it throws for reading \<open>.size\<close> of
  \<open>null\<close> and for \<open>URL.createObjectURL(null)\<close>.
\<close>

record env =
  env_codec :: codec
  env_createObjectURL :: "blob \<Rightarrow> string"
  env_toDataURL :: "canvas \<Rightarrow> string \<Rightarrow> number \<Rightarrow> string"
  env_loadImage :: "File \<Rightarrow> js_error + image"
  env_nullSizeText :: string
  env_nullUrlText :: string

section \<open>processImage\<close>

text \<open>The arguments of one call of \<open>processImage\<close>; a missing optional argument is \<open>None\<close>.\<close>

record request =
  rq_imageData :: imageData
  rq_preset :: string
  rq_qualityValue :: number
  rq_customW :: "number option"
  rq_customH :: "number option"

text \<open>Truthiness of an optional number: \<open>undefined\<close> and \<open>0\<close> are falsy.\<close>

fun truthy :: "number option \<Rightarrow> bool" where
  "truthy None = False"
| "truthy (Some x) = (x \<noteq> 0)"

text \<open>
  The settings \<open>processImage\<close> works with: the custom bounds passed to it when the preset
  is \<open>custom\<close> and both are truthy, the result of \<open>getPresetSettings\<close> otherwise.
\<close>

definition processImage_settings :: "number \<Rightarrow> number \<Rightarrow> request \<Rightarrow> settings" where
  "processImage_settings cw ch r =
     (if rq_preset r = ''custom'' \<and> truthy (rq_customW r) \<and> truthy (rq_customH r) then
        \<lparr>maxWidth = the (rq_customW r), maxHeight = the (rq_customH r), targetSize = \<infinity>,
         exactResize = False\<rparr>
      else getPresetSettings cw ch (rq_preset r))"

text \<open>
  The image element \<open>processImage\<close> creates from the data URL: it has the size recorded
  when the file was first loaded.
\<close>

definition processImage_img :: "request \<Rightarrow> image" where
  "processImage_img r =
     \<lparr>img_width = id_width (rq_imageData r), img_height = id_height (rq_imageData r)\<rparr>"

definition processImage_canvas :: "number \<Rightarrow> number \<Rightarrow> request \<Rightarrow> canvas" where
  "processImage_canvas cw ch r =
     (let settings = processImage_settings cw ch r;
          dimensions = resizeImage (processImage_img r) (maxWidth settings) (maxHeight settings)
                         (exactResize settings)
      in \<lparr>cv_width = fst dimensions, cv_height = snd dimensions, cv_img = processImage_img r\<rparr>)"

text \<open>The MIME type asked of the codec in the branch without a byte budget.\<close>

definition processImage_mime :: "request \<Rightarrow> string" where
  "processImage_mime r =
     (if file_type (id_file (rq_imageData r)) = ''image/png'' then ''image/png''
      else ''image/jpeg'')"

text \<open>
  The \<open>try\<close> block of \<open>processImage\<close>: the blob it obtains, or the error thrown on the
  way. Without a budget one call of the codec; a \<open>null\<close> result makes
  \<open>URL.createObjectURL\<close> throw. With a budget the quality search, of which only the blob
  is kept.
\<close>

definition processImage_blob :: "env \<Rightarrow> number \<Rightarrow> number \<Rightarrow> request \<Rightarrow> js_error + blob" where
  "processImage_blob e cw ch r =
     (let settings = processImage_settings cw ch r;
          cv = processImage_canvas cw ch r
      in if targetSize settings = \<infinity> then
           (case toBlob (env_codec e) cv (processImage_mime r) (rq_qualityValue r / 100) of
              None \<Rightarrow> Inl TypeError
            | Some b \<Rightarrow> Inr b)
         else
           (case compressToTargetSize (env_codec e) cv (targetSize settings) (rq_qualityValue r) of
              Inl err \<Rightarrow> Inl err
            | Inr res \<Rightarrow> Inr (sr_blob res)))"

definition processImage_try :: "env \<Rightarrow> number \<Rightarrow> number \<Rightarrow> request \<Rightarrow> js_error + compressedImage" where
  "processImage_try e cw ch r =
     (case processImage_blob e cw ch r of
        Inl err \<Rightarrow> Inl err
      | Inr b \<Rightarrow>
          Inr \<lparr>ci_blob = b, ci_dataUrl = env_createObjectURL e b,
               ci_width = cv_width (processImage_canvas cw ch r),
               ci_height = cv_height (processImage_canvas cw ch r),
               ci_size = blob_size b\<rparr>)"

text \<open>
  \<open>processImage\<close> runs in two parts. What it does before its first \<open>await\<close> happens when
  the handler calls it; what follows the last \<open>await\<close> (publishing the result or the
  error, then the \<open>finally\<close> block) happens when its encode completes. \<open>cw\<close> and \<open>ch\<close>
  are the \<open>customWidth\<close> and \<open>customHeight\<close> of the render the call was made in.
\<close>

text \<open>
  \<open>err.message\<close> in the \<open>catch\<close> block: a \<open>TypeError\<close> comes from \<open>createObjectURL\<close> in
  the branch without a budget and from \<open>blob.size\<close> in the quality search.
\<close>

definition processImage_message :: "env \<Rightarrow> number \<Rightarrow> number \<Rightarrow> request \<Rightarrow> js_error \<Rightarrow> string" where
  "processImage_message e cw ch r err =
     (case err of
        Error m \<Rightarrow> m
      | TypeError \<Rightarrow>
          if targetSize (processImage_settings cw ch r) = \<infinity> then env_nullUrlText e
          else env_nullSizeText e)"

definition processImage_start :: "'p appState \<Rightarrow> 'p appState" where
  "processImage_start st = st\<lparr>isProcessing := True, error := None\<rparr>"

definition processImage_finish :: "env \<Rightarrow> number \<Rightarrow> number \<Rightarrow> request \<Rightarrow> 'p appState \<Rightarrow> 'p appState" where
  "processImage_finish e cw ch r st =
     (case processImage_try e cw ch r of
        Inr c \<Rightarrow> st\<lparr>compressedImage := Some c, isProcessing := False\<rparr>
      | Inl err \<Rightarrow>
          st\<lparr>error := Some (processImage_message e cw ch r err), isProcessing := False\<rparr>)"

text \<open>One call of \<open>processImage\<close> that runs to its end with nothing in between.\<close>

definition processImage :: "env \<Rightarrow> request \<Rightarrow> 'p appState \<Rightarrow> 'p appState" where
  "processImage e r st =
     processImage_finish e (customWidth st) (customHeight st) r (processImage_start st)"

section \<open>Overlapping requests\<close>

text \<open>
  The handlers call \<open>processImage\<close> without awaiting it, so a second call can start while
  the first is suspended at an \<open>await\<close>. A run is a list of events: a call being issued,
  or the encode of a pending call completing. Pending calls are numbered in the order of
  issue and keep the \<open>customWidth\<close> and \<open>customHeight\<close> their closure captured.
\<close>

datatype event = Issue request | Complete nat

record 'p system =
  app :: "'p appState"
  pending :: "(nat \<times> (number \<times> number \<times> request)) list"
  issued :: nat

fun step :: "env \<Rightarrow> event \<Rightarrow> 'p system \<Rightarrow> 'p system" where
  "step e (Issue r) s =
     s\<lparr>app := processImage_start (app s),
       pending := pending s @ [(issued s, (customWidth (app s), customHeight (app s), r))],
       issued := issued s + 1\<rparr>"
| "step e (Complete i) s =
     (case map_of (pending s) i of
        None \<Rightarrow> s
      | Some (cw, ch, r) \<Rightarrow>
          s\<lparr>app := processImage_finish e cw ch r (app s),
            pending := filter (\<lambda>p. fst p \<noteq> i) (pending s)\<rparr>)"

definition run :: "env \<Rightarrow> event list \<Rightarrow> 'p system \<Rightarrow> 'p system" where
  "run e evs s = fold (step e) evs s"

section \<open>Validation of custom bounds\<close>

definition MAX_DIMENSIONS :: number where
  "MAX_DIMENSIONS = 8000"

text \<open>\<open>Number.isInteger\<close> on a finite number.\<close>

definition isInteger :: "number \<Rightarrow> bool" where
  "isInteger x = (of_int \<lfloor>x\<rfloor> = x)"

text \<open>\<open>validateDimensions\<close>: the message of the first check that fails, \<open>None\<close> for \<open>null\<close>.\<close>

definition validateDimensions :: "number \<Rightarrow> number \<Rightarrow> string option" where
  "validateDimensions width height =
     (if \<not> isInteger width \<or> \<not> isInteger height then
        Some ''Width and height must be whole numbers.''
      else if width \<le> 0 \<or> height \<le> 0 then
        Some ''Width and height must be positive numbers.''
      else if width > MAX_DIMENSIONS \<or> height > MAX_DIMENSIONS then
        Some ''Width and height must be less than 8000px.''
      else None)"

section \<open>compressImage and recompressImage\<close>

definition compressImage_canvas ::
  "image \<Rightarrow> Preset \<Rightarrow> (number \<times> number) option \<Rightarrow> canvas" where
  "compressImage_canvas img preset customDimensions =
     (let (width, height) = compressImage_dims img preset customDimensions
      in \<lparr>cv_width = width, cv_height = height, cv_img = img\<rparr>)"

text \<open>
  \<open>compressImage\<close> of the variant with custom bounds: one call of the codec, always for
  \<open>image/jpeg\<close>; a \<open>null\<close> blob rejects the promise.
\<close>

definition compressImage ::
  "env \<Rightarrow> image \<Rightarrow> Preset \<Rightarrow> number \<Rightarrow> (number \<times> number) option \<Rightarrow> compressedImage promise" where
  "compressImage e img preset customQuality customDimensions =
     (let cv = compressImage_canvas img preset customDimensions in
      case toBlob (env_codec e) cv ''image/jpeg'' (customQuality / 100) of
        None \<Rightarrow> Rejected (Error ''Failed to compress image: canvas.toBlob returned null.'')
      | Some b \<Rightarrow>
          Resolved \<lparr>ci_blob = b,
                    ci_dataUrl = env_toDataURL e cv ''image/jpeg'' (customQuality / 100),
                    ci_width = cv_width cv, ci_height = cv_height cv, ci_size = blob_size b\<rparr>)"

text \<open>
  \<open>recompressImage\<close>, run to its end: the state it leaves, and the calls of
  \<open>canvas.toBlob\<close> it made (canvas, MIME type, quality), in order. It reads the image, the
  preset, the quality and the custom bounds from the render it belongs to (\<open>rd\<close>), and
  its \<open>set\<close> calls write the current state.
\<close>

type_synonym toBlobCall = "canvas \<times> string \<times> number"

definition recompressImage ::
  "env \<Rightarrow> Preset render \<Rightarrow> Preset appState \<Rightarrow> Preset appState \<times> toBlobCall list" where
  "recompressImage e rd st0 =
     (case rd_originalImage rd of
        None \<Rightarrow> (st0, [])
      | Some orig \<Rightarrow>
          let st = st0\<lparr>isProcessing := True, error := None, dimensionError := None\<rparr> in
          case env_loadImage e (id_file orig) of
            Inl err \<Rightarrow>
              (st\<lparr>error := Some ''Failed to reprocess image. Please try again.'',
                  isProcessing := False\<rparr>, [])
          | Inr img \<Rightarrow>
              if rd_selectedPreset rd = Custom
                 \<and> validateDimensions (rd_customWidth rd) (rd_customHeight rd) \<noteq> None
              then
                (st\<lparr>dimensionError := validateDimensions (rd_customWidth rd) (rd_customHeight rd),
                    isProcessing := False\<rparr>, [])
              else
                let customDimensions =
                      (if rd_selectedPreset rd = Custom
                       then Some (rd_customWidth rd, rd_customHeight rd) else None);
                    call = (compressImage_canvas img (rd_selectedPreset rd) customDimensions,
                            ''image/jpeg'', rd_quality rd / 100)
                in case compressImage e img (rd_selectedPreset rd) (rd_quality rd)
                          customDimensions of
                     Resolved c \<Rightarrow> (st\<lparr>compressedImage := Some c, isProcessing := False\<rparr>, [call])
                   | Rejected err \<Rightarrow>
                       (st\<lparr>error := Some ''Failed to reprocess image. Please try again.'',
                           isProcessing := False\<rparr>, [call])
                   | Pending \<Rightarrow> (st, [call]))"

text \<open>
  The effect with dependencies \<open>selectedPreset\<close>, \<open>customWidth\<close> and \<open>customHeight\<close>: it
  runs after a render in which one of them changed, and reads the state of that render.
\<close>

definition useEffect_recompress ::
  "env \<Rightarrow> Preset appState \<Rightarrow> Preset appState \<times> toBlobCall list" where
  "useEffect_recompress e st =
     (if originalImage st = None then (st, [])
      else if isProcessing st then (st, [])
      else if selectedPreset st = Custom
              \<and> validateDimensions (customWidth st) (customHeight st) \<noteq> None
      then (st\<lparr>dimensionError := validateDimensions (customWidth st) (customHeight st)\<rparr>, [])
      else recompressImage e (render_of st) st)"

section \<open>Typing a custom bound\<close>

text \<open>
  \<open>parseInt\<close> with no radix on the text of the input field: leading white space and a
  sign are skipped, a \<open>0x\<close> prefix selects base 16, and the longest run of digits is read;
  \<open>None\<close> is \<open>NaN\<close>. (White space beyond ASCII is not modelled, and the value is exact
  where the source rounds integers beyond \<open>2^53\<close>.)
\<close>

definition isWhiteSpace :: "char \<Rightarrow> bool" where
  "isWhiteSpace c = (c \<in> set [CHR '' '', CHR 0x09, CHR 0x0A, CHR 0x0B, CHR 0x0C, CHR 0x0D])"

definition digitValue :: "char \<Rightarrow> nat option" where
  "digitValue c =
     (let n = (of_char c :: nat) in
      if 48 \<le> n \<and> n \<le> 57 then Some (n - 48)
      else if 97 \<le> n \<and> n \<le> 122 then Some (n - 87)
      else if 65 \<le> n \<and> n \<le> 90 then Some (n - 55)
      else None)"

fun radixDigits :: "nat \<Rightarrow> string \<Rightarrow> nat list" where
  "radixDigits R [] = []"
| "radixDigits R (c # cs) =
     (case digitValue c of
        None \<Rightarrow> []
      | Some d \<Rightarrow> if d < R then d # radixDigits R cs else [])"

definition parseInt :: "string \<Rightarrow> int option" where
  "parseInt inputString =
     (let S = dropWhile isWhiteSpace inputString;
          (sign, S) =
            (case S of
               [] \<Rightarrow> (1, S)
             | c # cs \<Rightarrow>
                 if c = CHR ''-'' then (- 1, cs) else if c = CHR ''+'' then (1, cs) else (1, S));
          (R, S) =
            (if take 2 S = ''0x'' \<or> take 2 S = ''0X'' then (16, drop 2 S) else (10, S));
          Z = radixDigits R S
      in if Z = [] then None else Some (sign * int (foldl (\<lambda>a d. a * R + d) 0 Z)))"

datatype dimension = Width | Height

text \<open>
  \<open>handleCustomDimensionChange\<close>, called in the render whose state is \<open>st0\<close>. A pending
  debounce timer is cleared, the parsed value (\<open>0\<close> for \<open>NaN\<close>) is stored, a shown
  dimension error is cleared, and when an image is loaded, the preset is custom and the
  value is positive, a timer of one second is set. The callback of that timer closes
  over the \<open>recompressImage\<close> and the \<open>selectedPreset\<close> of this render, which hold the
  state from before the change.
\<close>

definition handleCustomDimensionChange ::
  "dimension \<Rightarrow> string \<Rightarrow> Preset appState \<Rightarrow> Preset appState" where
  "handleCustomDimensionChange dimension val st0 =
     (let st = (if recompressionTimeout st0 \<noteq> None then st0\<lparr>recompressionTimeout := None\<rparr>
                else st0);
          numValue = (case parseInt val of None \<Rightarrow> 0 | Some n \<Rightarrow> of_int n);
          st = (if dimension = Width then st\<lparr>customWidth := numValue\<rparr>
                else st\<lparr>customHeight := numValue\<rparr>);
          st = (if dimensionError st0 \<noteq> None then st\<lparr>dimensionError := None\<rparr> else st)
      in if originalImage st0 \<noteq> None \<and> selectedPreset st0 = Custom \<and> numValue > 0
         then st\<lparr>recompressionTimeout := Some (render_of st0)\<rparr> else st)"

text \<open>
  The callback of the debounce timer, run when the timer fires: it calls the
  \<open>recompressImage\<close> it closed over if the preset it closed over is custom, then sets
  \<open>recompressionTimeout\<close> to \<open>null\<close>.
\<close>

definition timeoutCallback :: "env \<Rightarrow> Preset appState \<Rightarrow> Preset appState \<times> toBlobCall list" where
  "timeoutCallback e st =
     (case recompressionTimeout st of
        None \<Rightarrow> (st, [])
      | Some rd \<Rightarrow>
          let (st', calls) =
                (if rd_selectedPreset rd = Custom then recompressImage e rd st else (st, []))
          in (st'\<lparr>recompressionTimeout := None\<rparr>, calls))"

section \<open>The single-encode compressImage\<close>

text \<open>The table of the variant without custom bounds; only the banner's budget differs.\<close>

fun PRESETS_App :: "Preset \<Rightarrow> settings" where
  "PRESETS_App Etsy =
     \<lparr>maxWidth = 2000, maxHeight = 2000, targetSize = enat (500 * 1024), exactResize = False\<rparr>"
| "PRESETS_App Shopee =
     \<lparr>maxWidth = 3000, maxHeight = 3000, targetSize = enat (2 * 1024 * 1024),
      exactResize = False\<rparr>"
| "PRESETS_App Linkedin =
     \<lparr>maxWidth = 1584, maxHeight = 396, targetSize = enat (8 * 1024 * 1024),
      exactResize = True\<rparr>"
| "PRESETS_App Custom =
     \<lparr>maxWidth = 1920, maxHeight = 1080, targetSize = enat (1 * 1024 * 1024),
      exactResize = False\<rparr>"

definition compressImage_App_canvas :: "image \<Rightarrow> Preset \<Rightarrow> canvas" where
  "compressImage_App_canvas img preset =
     (let presetConfig = PRESETS_App preset;
          width = img_width img; height = img_height img;
          (width, height) =
            (if preset = Linkedin then (maxWidth presetConfig, maxHeight presetConfig)
             else
               let aspectRatio = fl (width / height);
                   (width, height) =
                     (if width > maxWidth presetConfig
                      then (maxWidth presetConfig, fl (maxWidth presetConfig / aspectRatio))
                      else (width, height));
                   (width, height) =
                     (if height > maxHeight presetConfig
                      then (fl (maxHeight presetConfig * aspectRatio), maxHeight presetConfig)
                      else (width, height))
               in (width, height))
      in \<lparr>cv_width = width, cv_height = height, cv_img = img\<rparr>)"

text \<open>
  The promise this \<open>compressImage\<close> returns: its executor calls \<open>resolve\<close> inside
  \<open>if (blob)\<close> and has no other branch.
\<close>

definition compressImage_App :: "env \<Rightarrow> image \<Rightarrow> Preset \<Rightarrow> number \<Rightarrow> compressedImage promise" where
  "compressImage_App e img preset customQuality =
     (let cv = compressImage_App_canvas img preset in
      case toBlob (env_codec e) cv ''image/jpeg'' (customQuality / 100) of
        Some b \<Rightarrow>
          Resolved \<lparr>ci_blob = b,
                    ci_dataUrl = env_toDataURL e cv ''image/jpeg'' (customQuality / 100),
                    ci_width = cv_width cv, ci_height = cv_height cv, ci_size = blob_size b\<rparr>
      | None \<Rightarrow> Pending)"

text \<open>
  The two handlers of this variant that compress again, run as far as they get. Each
  awaits \<open>compressImage\<close> inside a \<open>try\<close>; while that promise is pending nothing after the
  \<open>await\<close> runs, neither the \<open>catch\<close> block nor \<open>setIsProcessing(false)\<close>.
\<close>

definition handlePresetChange_App :: "env \<Rightarrow> Preset \<Rightarrow> Preset appState \<Rightarrow> Preset appState" where
  "handlePresetChange_App e preset st0 =
     (let st = st0\<lparr>selectedPreset := preset\<rparr> in
      case originalImage st0 of
        None \<Rightarrow> st
      | Some orig \<Rightarrow>
          let st = st\<lparr>isProcessing := True\<rparr> in
          case env_loadImage e (id_file orig) of
            Inl err \<Rightarrow> st\<lparr>error := Some ''Failed to reprocess image.'', isProcessing := False\<rparr>
          | Inr img \<Rightarrow>
              (case compressImage_App e img preset (quality st0) of
                 Resolved c \<Rightarrow> st\<lparr>compressedImage := Some c, isProcessing := False\<rparr>
               | Rejected err \<Rightarrow>
                   st\<lparr>error := Some ''Failed to reprocess image.'', isProcessing := False\<rparr>
               | Pending \<Rightarrow> st))"

definition handleQualityChange_App :: "env \<Rightarrow> number \<Rightarrow> Preset appState \<Rightarrow> Preset appState" where
  "handleQualityChange_App e newQuality st0 =
     (let st = st0\<lparr>quality := newQuality\<rparr> in
      case originalImage st0 of
        None \<Rightarrow> st
      | Some orig \<Rightarrow>
          let st = st\<lparr>isProcessing := True\<rparr> in
          case env_loadImage e (id_file orig) of
            Inl err \<Rightarrow> st\<lparr>error := Some ''Failed to reprocess image.'', isProcessing := False\<rparr>
          | Inr img \<Rightarrow>
              (case compressImage_App e img (selectedPreset st0) newQuality of
                 Resolved c \<Rightarrow> st\<lparr>compressedImage := Some c, isProcessing := False\<rparr>
               | Rejected err \<Rightarrow>
                   st\<lparr>error := Some ''Failed to reprocess image.'', isProcessing := False\<rparr>
               | Pending \<Rightarrow> st))"

section \<open>Sample inputs\<close>

text \<open>
  Concrete collaborators and inputs on which the statements below are evaluated: a codec
  that produces the same number of bytes whatever it is asked, a codec that always hands
  back \<open>null\<close>, a 4000 by 3000 photo, a state in which that photo is loaded and an
  earlier result is shown, and an environment whose \<open>TypeError\<close> texts are those of one
  engine.
\<close>

definition constCodec :: "nat \<Rightarrow> codec" where
  "constCodec n cv mime q = Some n"

definition nullCodec :: codec where
  "nullCodec cv mime q = None"

text \<open>A codec whose output grows with the quality: 10000 bytes for each point of quality.\<close>

definition linearCodec :: codec where
  "linearCodec cv mime q = Some (nat \<lfloor>q * 1000000\<rfloor>)"

text \<open>
  A codec that hands back \<open>null\<close> for a canvas without pixels (the size of a canvas is
  truncated to whole pixels) and one byte per pixel otherwise.
\<close>

definition pixelCodec :: codec where
  "pixelCodec cv mime q =
     (if \<lfloor>cv_width cv\<rfloor> \<le> 0 \<or> \<lfloor>cv_height cv\<rfloor> \<le> 0 then None
      else Some (nat (\<lfloor>cv_width cv\<rfloor> * \<lfloor>cv_height cv\<rfloor>)))"

definition sampleImage :: image where
  "sampleImage = \<lparr>img_width = 4000, img_height = 3000\<rparr>"

definition sampleEnv :: "codec \<Rightarrow> env" where
  "sampleEnv enc =
     \<lparr>env_codec = enc,
      env_createObjectURL = (\<lambda>b. ''blob:compressed''),
      env_toDataURL = (\<lambda>cv mime q. ''data:image/jpeg''),
      env_loadImage = (\<lambda>f. Inr sampleImage),
      env_nullSizeText = ''Cannot read properties of null (reading 'size')'',
      env_nullUrlText = ''Failed to execute 'createObjectURL' on 'URL': Overload resolution failed.''\<rparr>"

text \<open>The same environment when the file decodes to a strip 3000 pixels wide and 1 high.\<close>

definition stripEnv :: "codec \<Rightarrow> env" where
  "stripEnv enc = (sampleEnv enc)\<lparr>env_loadImage := (\<lambda>f. Inr \<lparr>img_width = 3000, img_height = 1\<rparr>)\<rparr>"

definition sampleCanvas :: canvas where
  "sampleCanvas = \<lparr>cv_width = 2000, cv_height = 1500, cv_img = sampleImage\<rparr>"

definition sampleImageData :: "string \<Rightarrow> imageData" where
  "sampleImageData mime =
     \<lparr>id_file = \<lparr>file_name = ''photo'', file_type = mime, file_size = 3000000\<rparr>,
      id_dataUrl = ''blob:original'', id_width = 4000, id_height = 3000, id_size = 3000000\<rparr>"

definition sampleRequest :: "string \<Rightarrow> string \<Rightarrow> number \<Rightarrow> request" where
  "sampleRequest preset mime q =
     \<lparr>rq_imageData = sampleImageData mime, rq_preset = preset, rq_qualityValue = q,
      rq_customW = None, rq_customH = None\<rparr>"

definition previousResult :: compressedImage where
  "previousResult =
     \<lparr>ci_blob = \<lparr>blob_type = ''image/jpeg'', blob_quality = 9 / 10, blob_size = 400000\<rparr>,
      ci_dataUrl = ''blob:previous'', ci_width = 2000, ci_height = 1500, ci_size = 400000\<rparr>"

definition sampleState :: "'p \<Rightarrow> 'p appState" where
  "sampleState preset =
     \<lparr>originalImage = Some (sampleImageData ''image/jpeg''),
      compressedImage = Some previousResult,
      selectedPreset = preset, quality = 80, isProcessing = False, error = None,
      customWidth = 1920, customHeight = 1080, dimensionError = None,
      recompressionTimeout = None\<rparr>"

text \<open>
  The state of the single-encode variant once the strip has been compressed under the
  preset with the 3000 pixel bounds, where it is not scaled.
\<close>

definition stripState :: "Preset appState" where
  "stripState =
     \<lparr>originalImage =
        Some \<lparr>id_file = \<lparr>file_name = ''strip'', file_type = ''image/png'', file_size = 20000\<rparr>,
              id_dataUrl = ''blob:strip'', id_width = 3000, id_height = 1, id_size = 20000\<rparr>,
      compressedImage =
        Some \<lparr>ci_blob = \<lparr>blob_type = ''image/jpeg'', blob_quality = 80 / 100, blob_size = 3000\<rparr>,
              ci_dataUrl = ''data:image/jpeg'', ci_width = 3000, ci_height = 1, ci_size = 3000\<rparr>,
      selectedPreset = Shopee, quality = 80, isProcessing = False, error = None,
      customWidth = 1920, customHeight = 1080, dimensionError = None,
      recompressionTimeout = None\<rparr>"

definition sampleSystem :: "string system" where
  "sampleSystem = \<lparr>app = sampleState ''etsy'', pending = [], issued = 0\<rparr>"

section \<open>Arithmetic of rounding\<close>

lemma floor_numeral_div_rat:
  "\<lfloor>numeral a / numeral b :: rat\<rfloor> = numeral a div numeral b"
  using floor_divide_of_int_eq [of "numeral a" "numeral b", where ?'a = rat] by simp

lemma floor_one_div_rat:
  "\<lfloor>1 / numeral b :: rat\<rfloor> = 1 div numeral b"
  using floor_divide_of_int_eq [of 1 "numeral b", where ?'a = rat] by simp

text \<open>The doubles that the evaluations below go through.\<close>

lemma fl_values:
  "fl (2000 / 2141) = 4207005723839791 / 4503599627370496"
  "fl (2) = 2"
  "fl (9007199254740992531 / 4503599627370496) = 8796093022208001 / 4398046511104"
  "fl (525875715479973875 / 562949953421312) = 128387625849603 / 137438953472"
  "fl (8000) = 8000"
  "fl (1 / 4) = 1 / 4"
  "fl (16000000) = 16000000"
  "fl (800 / 89) = 158132009388009 / 17592186044416"
  "fl (35184372088832000 / 158132009388009) = 7828522789765119 / 35184372088832"
  "fl (19766501173501125 / 1099511627776) = 4941625293375281 / 274877906944"
  "fl (8000 / 3) = 5864062014805333 / 2199023255552"
  "fl (4398046511104000 / 5864062014805333) = 3 / 4"
  "fl (146601550370133325 / 549755813888) = 2290649224533333 / 8589934592"
  "fl (12 / 25) = 1080863910568919 / 2251799813685248"
  "fl (9 / 25) = 3242591731706757 / 9007199254740992"
  "fl (405323966463344625 / 281474976710656) = 1440"
  "fl (1215971899390033875 / 1125899906842624) = 1080"
  "fl (1 / 2) = 1 / 2"
  "fl (2 / 3) = 6004799503160661 / 9007199254740992"
  "fl (2000) = 2000"
  "fl (1500) = 1500"
  "fl (3000) = 3000"
  "fl (4 / 3) = 6004799503160661 / 4503599627370496"
  "fl (18014398509481984 / 2001599834386887) = 9"
  "fl (2882303761517117440 / 2001599834386887) = 1440"
  "fl (810647932926689235 / 562949953421312) = 1440"
  by code_simp+

lemmas eval_round = Math_round_def floor_numeral_div_rat floor_one_div_rat

subsection \<open>Rounding\<close>

lemma pow2_pos: "0 < pow2 e"
  by (simp add: pow2_def)

lemma roundEven_nonneg: "0 \<le> m \<Longrightarrow> 0 \<le> roundEven m"
  by (auto simp: roundEven_def Let_def)

lemma fl_nonneg: "0 \<le> x \<Longrightarrow> 0 \<le> fl x"
proof (cases "x = 0")
  case True
  then show ?thesis by (simp add: fl_def)
next
  case False
  assume "0 \<le> x"
  with False have x: "0 < x" by simp
  define e where "e = (if 1 \<le> \<bar>x\<bar> then log2_hi \<bar>x\<bar> else log2_lo \<bar>x\<bar>) - 52"
  have "0 \<le> \<bar>x\<bar> / pow2 e" using pow2_pos [of e] by simp
  then have "0 \<le> roundEven (\<bar>x\<bar> / pow2 e)" by (rule roundEven_nonneg)
  then have "0 \<le> of_int (roundEven (\<bar>x\<bar> / pow2 e)) * pow2 e"
    using pow2_pos [of e] by simp
  moreover have "fl x = of_int (roundEven (\<bar>x\<bar> / pow2 e)) * pow2 e"
    using x by (simp add: fl_def e_def Let_def)
  ultimately show ?thesis by simp
qed

lemma Math_round_Ints: "Math_round x \<in> \<int>"
  unfolding Math_round_def by simp

lemma Math_round_nonneg: "0 \<le> x \<Longrightarrow> 0 \<le> Math_round x"
  unfolding Math_round_def by simp

subsection \<open>The two scaling steps of compressImage\<close>

lemma scaleDown_cases:
  "scaleDown a W H (w, h) =
     (if w > W then
        (if Math_round (fl (W / a)) > H then (Math_round (fl (H * a)), H)
         else (W, Math_round (fl (W / a))))
      else if h > H then (Math_round (fl (H * a)), H) else (w, h))"
  by (simp add: scaleDown_def)

lemma scaleDown_shape:
  "scaleDown a W H (w, h) = (w, h)
   \<or> scaleDown a W H (w, h) = (W, Math_round (fl (W / a)))
   \<or> scaleDown a W H (w, h) = (Math_round (fl (H * a)), H)"
  by (simp add: scaleDown_cases)

lemma compressImage_dims_custom:
  "compressImage_dims img Custom (Some (cw, ch)) =
     scaleDown (fl (img_width img / img_height img)) cw ch (img_width img, img_height img)"
  by (simp add: compressImage_dims_def)

lemma compressImage_dims_preset:
  "preset \<noteq> Linkedin \<Longrightarrow> preset = Custom \<longrightarrow> customDimensions = None \<Longrightarrow>
   compressImage_dims img preset customDimensions =
     scaleDown (fl (img_width img / img_height img)) (maxWidth (PRESETS preset))
       (maxHeight (PRESETS preset)) (img_width img, img_height img)"
  by (auto simp: compressImage_dims_def)

section \<open>Exact resize\<close>

text \<open>
  Claim C5. Under the exact-resize policy the resolved size is exactly
  \<open>(maxWidth, maxHeight)\<close> whatever the source: \<open>resizeImage\<close> with \<open>exactResize\<close> set
  returns its two bounds, so 1584 by 396 for the banner bounds, and \<open>compressImage\<close>
  gives the banner preset 1584 by 396.
\<close>

theorem exact_resize_dims:
  "resizeImage img maxW maxH True = (maxW, maxH)
   \<and> resizeImage img 1584 396 True = (1584, 396)
   \<and> compressImage_dims img Linkedin customDimensions = (1584, 396)"
  by (simp add: resizeImage_def compressImage_dims_def)

theorem exact_resize_dims_witness:
  "resizeImage \<lparr>img_width = 4000, img_height = 3000\<rparr> 1584 396 True = (1584, 396)
   \<and> compressImage_dims \<lparr>img_width = 4000, img_height = 3000\<rparr> Linkedin None = (1584, 396)"
  using exact_resize_dims [of "\<lparr>img_width = 4000, img_height = 3000\<rparr>" 1584 396 None]
  by simp

section \<open>Fit within bounds\<close>

text \<open>
  Claim C2 says that the size resolved by fitting within bounds \<open>(W, H)\<close> always has
  width at most \<open>W\<close> and height at most \<open>H\<close>, and that a source already within the
  bounds is left as it is. \<open>resizeImage\<close> multiplies the source size by the rounded
  ratio and keeps the product as it is, where \<open>compressImage\<close> rounds to an integer, so
  the bound can be missed in the last bit: a 2141 by 1000 source within 2000 by 2000
  gets the ratio \<open>fl (2000 / 2141)\<close>, and 2141 times that ratio rounds to \<open>2000 + 2^-42\<close>,
  which is 2000.0000000000002. That width is what \<open>processImage\<close> publishes with the
  result.
\<close>

theorem resizeImage_exceeds_bound:
  "resizeImage \<lparr>img_width = 2141, img_height = 1000\<rparr> 2000 2000 False
     = (2000 + 1 / 2 ^ 42, 128387625849603 / 137438953472)
   \<and> map_option ci_width
        (compressedImage
          (processImage (sampleEnv (constCodec 1000))
            ((sampleRequest ''etsy'' ''image/jpeg'' 80)
               \<lparr>rq_imageData := (sampleImageData ''image/jpeg'')\<lparr>id_width := 2141, id_height := 1000\<rparr>\<rparr>)
            (sampleState ''etsy'')))
     = Some (2000 + 1 / 2 ^ 42)"
  by (simp add: resizeImage_def Math_min_def fl_values processImage_def processImage_start_def
      processImage_finish_def processImage_try_def processImage_blob_def
      processImage_settings_def processImage_canvas_def processImage_img_def
      getPresetSettings_def compressToTargetSize.simps toBlob_def sampleEnv_def constCodec_def
      sampleRequest_def sampleImageData_def sampleState_def)

section \<open>Rounding without a clamp\<close>

lemma scaleDown_integral:
  fixes W H :: int
  assumes "w \<in> \<int>" "h \<in> \<int>"
  shows "fst (scaleDown a (of_int W) (of_int H) (w, h)) \<in> \<int>"
    and "snd (scaleDown a (of_int W) (of_int H) (w, h)) \<in> \<int>"
  using assms by (simp_all add: scaleDown_cases Math_round_Ints)

lemma scaleDown_nonneg:
  assumes "0 < w" "0 < h" "0 < W" "0 < H" "0 \<le> a"
  shows "0 \<le> fst (scaleDown a W H (w, h))"
    and "0 \<le> snd (scaleDown a W H (w, h))"
  using assms by (simp_all add: scaleDown_cases Math_round_nonneg fl_nonneg)

lemma scaleDown_one_positive:
  assumes "0 < w" "0 < h" "0 < W" "0 < H"
  shows "0 < fst (scaleDown a W H (w, h)) \<or> 0 < snd (scaleDown a W H (w, h))"
  using assms by (simp add: scaleDown_cases)

text \<open>
  Claim C6 says that both resolved dimensions are always positive integers and that an
  axis driven to zero by rounding is clamped to 1. \<open>compressImage\<close> rounds but has no
  clamp: an 8000 by 1 source under the 2000 by 2000 preset resolves to height 0.
\<close>

theorem compressImage_dims_zero_counterexample:
  "compressImage_dims \<lparr>img_width = 8000, img_height = 1\<rparr> Etsy None = (2000, 0)"
  by (simp add: compressImage_dims_def scaleDown_def fl_values eval_round)

text \<open>
  Claim C6, as the code has it. For a source with positive integer width and height and
  positive integer bounds, \<open>compressImage\<close> leaves the source size alone or sets one
  axis to its bound and the other to \<open>Math.round\<close> of the scaled value as the source
  computes it in doubles: the bound divided or multiplied by the rounded aspect ratio,
  rounded again. Both resolved dimensions are non-negative integers and at least one of
  them is positive; an axis that rounds to zero stays zero. (Because the scaled value
  carries the rounding of the aspect ratio, an exact tie can fall either way: 2400 by 267
  within 2000 by 2000 scales to 222.5 exactly and resolves to height 222.)
\<close>

theorem compressImage_dims_rounded:
  fixes W H :: int
  assumes "img_width img \<in> \<int>" and "img_height img \<in> \<int>"
    and "0 < img_width img" and "0 < img_height img"
    and "0 < W" and "0 < H"
    and "d = compressImage_dims img Custom (Some (of_int W, of_int H))
         \<or> preset \<noteq> Linkedin \<and> (preset = Custom \<longrightarrow> customDimensions = None)
            \<and> d = compressImage_dims img preset customDimensions
            \<and> maxWidth (PRESETS preset) = of_int W \<and> maxHeight (PRESETS preset) = of_int H"
  shows "fst d \<in> \<int> \<and> snd d \<in> \<int> \<and> 0 \<le> fst d \<and> 0 \<le> snd d \<and> (0 < fst d \<or> 0 < snd d)
    \<and> (d = (img_width img, img_height img)
       \<or> d = (of_int W, Math_round (fl (of_int W / fl (img_width img / img_height img))))
       \<or> d = (Math_round (fl (of_int H * fl (img_width img / img_height img))), of_int H))"
proof -
  let ?a = "fl (img_width img / img_height img)"
  let ?s = "scaleDown ?a (of_int W) (of_int H) (img_width img, img_height img)"
  have d: "d = ?s"
    using assms(7) by (auto simp: compressImage_dims_custom compressImage_dims_preset)
  have WH: "(0 :: rat) < of_int W" "(0 :: rat) < of_int H" using assms by simp_all
  have a: "0 \<le> ?a" using assms(3,4) by (intro fl_nonneg) simp
  have "fst ?s \<in> \<int>" "snd ?s \<in> \<int>"
    using assms(1,2) by (rule scaleDown_integral)+
  moreover have "0 \<le> fst ?s" "0 \<le> snd ?s"
    using assms(3,4) WH a by (rule scaleDown_nonneg)+
  moreover have "0 < fst ?s \<or> 0 < snd ?s"
    using assms(3,4) WH by (rule scaleDown_one_positive)
  moreover note scaleDown_shape [of ?a "of_int W" "of_int H" "img_width img" "img_height img"]
  ultimately show ?thesis unfolding d by blast
qed

theorem compressImage_dims_rounded_witness:
  "compressImage_dims \<lparr>img_width = 2400, img_height = 267\<rparr> Etsy None = (2000, 222)
   \<and> compressImage_dims \<lparr>img_width = 8000, img_height = 3\<rparr> Custom (Some (2000, 100)) = (2000, 1)"
  using compressImage_dims_rounded [of "\<lparr>img_width = 2400, img_height = 267\<rparr>" 2000 2000
      "compressImage_dims \<lparr>img_width = 2400, img_height = 267\<rparr> Etsy None" Etsy None]
    compressImage_dims_rounded [of "\<lparr>img_width = 8000, img_height = 3\<rparr>" 2000 100
      "compressImage_dims \<lparr>img_width = 8000, img_height = 3\<rparr> Custom (Some (2000, 100))"
      Etsy None]
  by (simp add: compressImage_dims_def scaleDown_def fl_values eval_round)

section \<open>Preset lookup\<close>

text \<open>
  Claim C4 says that looking up a name outside the four presets fails with an error.
  \<open>getPresetSettings\<close> has a \<open>default\<close> branch instead: an unknown name gets the
  settings of the first preset.
\<close>

theorem getPresetSettings_unknown_counterexample:
  "getPresetSettings 1920 1080 ''tiktok'' =
     \<lparr>maxWidth = 2000, maxHeight = 2000, targetSize = enat (500 * 1024), exactResize = False\<rparr>"
  by (simp add: getPresetSettings_def)

text \<open>
  Claim C4, as the code has it. The lookup is total: for every name outside
  \<open>etsy\<close>, \<open>shopee\<close>, \<open>linkedin\<close> and \<open>custom\<close> it returns the settings 2000 by 2000
  with a budget of 500 KiB and no exact resize, and never an error.
\<close>

theorem getPresetSettings_default:
  "preset \<notin> {''etsy'', ''shopee'', ''linkedin'', ''custom''} \<Longrightarrow>
   getPresetSettings cw ch preset =
     \<lparr>maxWidth = 2000, maxHeight = 2000, targetSize = enat (500 * 1024), exactResize = False\<rparr>"
  by (simp add: getPresetSettings_def)

theorem getPresetSettings_default_witness:
  "''instagram'' \<notin> {''etsy'', ''shopee'', ''linkedin'', ''custom''}
   \<and> getPresetSettings 800 600 ''instagram'' = getPresetSettings 800 600 ''etsy''"
  using getPresetSettings_default [of "''instagram''" 800 600]
  by (simp add: getPresetSettings_def)

section \<open>The quality search\<close>

text \<open>
  Claim C1 says that the blob returned by the quality search is the one encoded at the
  quality returned with it. The loop lowers the quality after an attempt that is over
  budget and then tests \<open>currentQuality > 50\<close> before encoding again, so when it leaves
  through that test the last blob was encoded five points above the quality it reports,
  and quality 50 is never tried. Starting at 80 under the 500 KiB budget with a codec
  that produces 10000 bytes per point of quality, the blob returned was encoded at 55
  and is over budget, the quality reported is 50, and an encode at 50 would have fitted.
\<close>

theorem compressToTargetSize_quality_mismatch:
  "compressToTargetSize linearCodec sampleCanvas (enat (500 * 1024)) 80 =
     Inr \<lparr>sr_blob = \<lparr>blob_type = ''image/jpeg'', blob_quality = 55 / 100, blob_size = 550000\<rparr>,
          finalQuality = 50\<rparr>
   \<and> toBlob linearCodec sampleCanvas ''image/jpeg'' (50 / 100) =
     Some \<lparr>blob_type = ''image/jpeg'', blob_quality = 50 / 100, blob_size = 500000\<rparr>"
  by (simp add: compressToTargetSize.simps toBlob_def linearCodec_def)

subsection \<open>Where the blob of the search comes from\<close>

lemma toBlob_type: "toBlob enc cv mime q = Some b \<Longrightarrow> blob_type b = mime"
  by (auto simp: toBlob_def)

lemma toBlob_None: "toBlob enc cv mime q = None \<longleftrightarrow> enc cv mime q = None"
  by (simp add: toBlob_def)

lemma compressToTargetSize_from_codec:
  "compressToTargetSize enc cv target q = Inr res \<Longrightarrow>
   \<exists>q'. toBlob enc cv ''image/jpeg'' q' = Some (sr_blob res)"
proof (induction enc cv target q rule: compressToTargetSize.induct)
  case (1 enc cv target q)
  show ?case
  proof (cases "toBlob enc cv ''image/jpeg'' (q / 100)")
    case None
    with "1.prems" show ?thesis by (simp add: compressToTargetSize.simps)
  next
    case (Some b)
    show ?thesis
    proof (cases "enat (blob_size b) \<le> target \<or> q \<le> 50")
      case True
      with Some "1.prems" have "sr_blob res = b"
        by (auto simp: compressToTargetSize.simps [of enc cv target q])
      with Some show ?thesis by auto
    next
      case False
      show ?thesis
      proof (cases "50 < q - 5")
        case True
        with False Some "1.prems" have "compressToTargetSize enc cv target (q - 5) = Inr res"
          by (simp add: compressToTargetSize.simps [of enc cv target q])
        with "1.IH" [OF Some False True] show ?thesis .
      next
        case F2: False
        with False Some "1.prems" have "sr_blob res = b"
          by (auto simp: compressToTargetSize.simps [of enc cv target q])
        with Some show ?thesis by auto
      qed
    qed
  qed
qed

lemma compressToTargetSize_returns:
  "(\<forall>q'. enc cv ''image/jpeg'' q' \<noteq> None) \<Longrightarrow>
   \<exists>res. compressToTargetSize enc cv target q = Inr res"
proof (induction enc cv target q rule: compressToTargetSize.induct)
  case (1 enc cv target q)
  from "1.prems" obtain n where n: "enc cv ''image/jpeg'' (q / 100) = Some n" by auto
  define b where "b = \<lparr>blob_type = ''image/jpeg'', blob_quality = q / 100, blob_size = n\<rparr>"
  have b: "toBlob enc cv ''image/jpeg'' (q / 100) = Some b"
    by (simp add: toBlob_def n b_def)
  show ?case
  proof (cases "\<not> (enat (blob_size b) \<le> target \<or> q \<le> 50) \<and> 50 < q - 5")
    case True
    then have "compressToTargetSize enc cv target q = compressToTargetSize enc cv target (q - 5)"
      using b by (simp add: compressToTargetSize.simps [of enc cv target q])
    moreover have "\<exists>res. compressToTargetSize enc cv target (q - 5) = Inr res"
      using "1.IH" [OF b] True "1.prems" by blast
    ultimately show ?thesis by simp
  next
    case False
    then show ?thesis
      using b by (auto simp: compressToTargetSize.simps [of enc cv target q])
  qed
qed

section \<open>Output format\<close>

lemma targetSize_getPresetSettings:
  "targetSize (getPresetSettings cw ch preset) = \<infinity> \<longleftrightarrow> preset = ''custom''"
  by (simp add: getPresetSettings_def)

lemma targetSize_processImage_settings:
  "targetSize (processImage_settings cw ch r) = \<infinity> \<longleftrightarrow> rq_preset r = ''custom''"
  by (simp add: processImage_settings_def targetSize_getPresetSettings)

lemma processImage_blob_from_codec:
  assumes "processImage_blob e cw ch r = Inr b"
  shows "blob_type b =
           (if rq_preset r = ''custom'' \<and> file_type (id_file (rq_imageData r)) = ''image/png''
            then ''image/png'' else ''image/jpeg'')
         \<and> (\<exists>q. toBlob (env_codec e) (processImage_canvas cw ch r) (blob_type b) q = Some b)"
proof (cases "rq_preset r = ''custom''")
  case True
  then have inf: "targetSize (processImage_settings cw ch r) = \<infinity>"
    by (simp add: targetSize_processImage_settings)
  from assms inf have tb: "toBlob (env_codec e) (processImage_canvas cw ch r) (processImage_mime r)
      (rq_qualityValue r / 100) = Some b"
    by (simp add: processImage_blob_def split: option.splits)
  then have ty: "blob_type b = processImage_mime r" by (rule toBlob_type)
  with tb have "\<exists>q. toBlob (env_codec e) (processImage_canvas cw ch r) (blob_type b) q = Some b"
    by auto
  with ty True show ?thesis by (simp add: processImage_mime_def)
next
  case False
  then have fin: "targetSize (processImage_settings cw ch r) \<noteq> \<infinity>"
    by (simp add: targetSize_processImage_settings)
  from assms fin obtain res where
    res: "compressToTargetSize (env_codec e) (processImage_canvas cw ch r)
            (targetSize (processImage_settings cw ch r)) (rq_qualityValue r) = Inr res"
    and b: "b = sr_blob res"
    by (auto simp: processImage_blob_def split: sum.splits)
  from compressToTargetSize_from_codec [OF res] obtain q where
    q: "toBlob (env_codec e) (processImage_canvas cw ch r) ''image/jpeg'' q = Some b"
    using b by auto
  then have "blob_type b = ''image/jpeg''" by (rule toBlob_type)
  with q False show ?thesis by auto
qed

lemma processImage_blob_returns:
  assumes "\<forall>mime q. env_codec e (processImage_canvas cw ch r) mime q \<noteq> None"
  shows "\<exists>b. processImage_blob e cw ch r = Inr b"
proof (cases "targetSize (processImage_settings cw ch r) = \<infinity>")
  case True
  from assms have "toBlob (env_codec e) (processImage_canvas cw ch r) (processImage_mime r)
      (rq_qualityValue r / 100) \<noteq> None"
    by (simp add: toBlob_None)
  with True show ?thesis by (auto simp: processImage_blob_def)
next
  case False
  from assms have "\<forall>q'. env_codec e (processImage_canvas cw ch r) ''image/jpeg'' q' \<noteq> None"
    by blast
  from compressToTargetSize_returns [of "env_codec e" "processImage_canvas cw ch r", OF this]
  obtain res where
    "compressToTargetSize (env_codec e) (processImage_canvas cw ch r)
       (targetSize (processImage_settings cw ch r)) (rq_qualityValue r) = Inr res"
    by blast
  with False show ?thesis by (auto simp: processImage_blob_def Let_def)
qed

lemma processImage_try_Inr:
  "processImage_try e cw ch r = Inr c \<Longrightarrow> processImage_blob e cw ch r = Inr (ci_blob c)"
  by (auto simp: processImage_try_def split: sum.splits)

text \<open>
  Claim C7 says that every output is in the one lossy format, a PNG source included.
  In the branch without a byte budget \<open>processImage\<close> asks the codec for \<open>image/png\<close>
  when the uploaded file is a PNG: under the custom preset a PNG source comes out as a
  PNG.
\<close>

theorem processImage_png_counterexample:
  "processImage_try (sampleEnv (constCodec 1000)) 1920 1080
     (sampleRequest ''custom'' ''image/png'' 95) =
   Inr \<lparr>ci_blob = \<lparr>blob_type = ''image/png'', blob_quality = 95 / 100, blob_size = 1000\<rparr>,
        ci_dataUrl = ''blob:compressed'', ci_width = 1440, ci_height = 1080, ci_size = 1000\<rparr>"
  by (simp add: processImage_try_def processImage_blob_def processImage_settings_def
      processImage_canvas_def processImage_img_def processImage_mime_def getPresetSettings_def
      resizeImage_def Math_min_def fl_values toBlob_def sampleEnv_def constCodec_def
      sampleRequest_def sampleImageData_def)

text \<open>
  Claim C7, as the code has it. \<open>processImage\<close> never short-circuits: whenever the codec
  yields a blob for the canvas, the call produces a result, and the blob of every result
  is one the codec returned for that canvas, also when the resolved size is the source
  size and the quality is at its maximum. The format is \<open>image/jpeg\<close>, except under the
  custom preset with a PNG source, where it is \<open>image/png\<close>.
\<close>

theorem processImage_output_format:
  "((\<forall>mime q. env_codec e (processImage_canvas cw ch r) mime q \<noteq> None) \<longrightarrow>
      (\<exists>c. processImage_try e cw ch r = Inr c))
   \<and> (\<forall>c. processImage_try e cw ch r = Inr c \<longrightarrow>
        blob_type (ci_blob c) =
          (if rq_preset r = ''custom'' \<and> file_type (id_file (rq_imageData r)) = ''image/png''
           then ''image/png'' else ''image/jpeg'')
        \<and> (\<exists>q. toBlob (env_codec e) (processImage_canvas cw ch r) (blob_type (ci_blob c)) q
               = Some (ci_blob c)))"
proof (intro conjI allI impI)
  assume "\<forall>mime q. env_codec e (processImage_canvas cw ch r) mime q \<noteq> None"
  from processImage_blob_returns [OF this] obtain b where
    "processImage_blob e cw ch r = Inr b" by blast
  then show "\<exists>c. processImage_try e cw ch r = Inr c"
    by (simp add: processImage_try_def)
next
  fix c assume c: "processImage_try e cw ch r = Inr c"
  note * = processImage_blob_from_codec [OF processImage_try_Inr [OF c]]
  from * show "blob_type (ci_blob c) =
          (if rq_preset r = ''custom'' \<and> file_type (id_file (rq_imageData r)) = ''image/png''
           then ''image/png'' else ''image/jpeg'')" by (rule conjunct1)
  from * show "\<exists>q. toBlob (env_codec e) (processImage_canvas cw ch r) (blob_type (ci_blob c)) q
               = Some (ci_blob c)" by (rule conjunct2)
qed

theorem processImage_output_format_witness:
  "\<exists>c. processImage_try (sampleEnv (constCodec 1000)) 1920 1080
          (sampleRequest ''etsy'' ''image/png'' 95) = Inr c
        \<and> blob_type (ci_blob c) = ''image/jpeg''"
proof -
  let ?e = "sampleEnv (constCodec 1000)" and ?r = "sampleRequest ''etsy'' ''image/png'' 95"
  have total: "\<forall>mime q. env_codec ?e (processImage_canvas 1920 1080 ?r) mime q \<noteq> None"
    by (simp add: sampleEnv_def constCodec_def)
  have fmt: "(if rq_preset ?r = ''custom'' \<and> file_type (id_file (rq_imageData ?r)) = ''image/png''
              then ''image/png'' else ''image/jpeg'') = ''image/jpeg''"
    by (simp add: sampleRequest_def)
  from processImage_output_format [of ?e 1920 1080 ?r, unfolded fmt] total
  show ?thesis by blast
qed

section \<open>Failures during encode\<close>

text \<open>
  In \<open>processImage\<close> and in \<open>recompressImage\<close> a codec that hands back \<open>null\<close> ends in the
  \<open>catch\<close> block: a message is stored in the error state, the published result is not
  written, and processing is switched off again.
\<close>

lemma processImage_null_blob:
  assumes "\<forall>mime q. env_codec e (processImage_canvas (customWidth st) (customHeight st) r) mime q
             = None"
  shows "error (processImage e r st)
           = Some (processImage_message e (customWidth st) (customHeight st) r TypeError)
         \<and> compressedImage (processImage e r st) = compressedImage st
         \<and> \<not> isProcessing (processImage e r st)"
proof -
  let ?cw = "customWidth st" and ?ch = "customHeight st"
  have "processImage_blob e ?cw ?ch r = Inl TypeError"
    using assms
    by (simp add: processImage_blob_def Let_def toBlob_def compressToTargetSize.simps)
  then have "processImage_try e ?cw ?ch r = Inl TypeError"
    by (simp add: processImage_try_def)
  then show ?thesis
    by (simp add: processImage_def processImage_finish_def processImage_start_def)
qed

lemma recompressImage_null_blob:
  assumes "rd_originalImage rd = Some orig" and "env_loadImage e (id_file orig) = Inr img"
    and "rd_selectedPreset rd = Custom \<longrightarrow>
           validateDimensions (rd_customWidth rd) (rd_customHeight rd) = None"
    and "\<forall>cv mime q. env_codec e cv mime q = None"
  shows "error (fst (recompressImage e rd st))
           = Some ''Failed to reprocess image. Please try again.''
         \<and> compressedImage (fst (recompressImage e rd st)) = compressedImage st
         \<and> \<not> isProcessing (fst (recompressImage e rd st))"
proof -
  have "compressImage e img p q cd
          = Rejected (Error ''Failed to compress image: canvas.toBlob returned null.'')"
    for p q cd
    using assms(4) by (simp add: compressImage_def toBlob_def)
  then show ?thesis
    using assms(1-3) by (auto simp: recompressImage_def Let_def)
qed

text \<open>
  Claim C9 says that every recompression whose encode fails surfaces an error and
  leaves the published result untouched. The handlers of the single-encode variant
  await a promise that a \<open>null\<close> blob never settles. Take the 3000 by 1 strip with its
  result under the 3000 pixel preset shown, which is the state the preset handler
  itself produces for that preset. Switching to the 2000 pixel preset resizes the
  canvas to a height below one pixel; the codec hands back \<open>null\<close>, and the handler
  stops at its \<open>await\<close>: the result is untouched, but no error is stored and
  \<open>isProcessing\<close> stays set. The quality handler stops in the same way.
\<close>

theorem handlePresetChange_App_no_error:
  "handlePresetChange_App (stripEnv pixelCodec) Shopee
     (stripState\<lparr>selectedPreset := Etsy, compressedImage := None\<rparr>) = stripState
   \<and> toBlob pixelCodec (compressImage_App_canvas \<lparr>img_width = 3000, img_height = 1\<rparr> Etsy)
      ''image/jpeg'' (80 / 100) = None
   \<and> handlePresetChange_App (stripEnv pixelCodec) Etsy stripState
       = stripState\<lparr>selectedPreset := Etsy, isProcessing := True\<rparr>
   \<and> error (handlePresetChange_App (stripEnv pixelCodec) Etsy stripState) = None
   \<and> handleQualityChange_App (stripEnv pixelCodec) 70 (stripState\<lparr>selectedPreset := Etsy\<rparr>)
       = stripState\<lparr>selectedPreset := Etsy, quality := 70, isProcessing := True\<rparr>"
  by (simp add: handlePresetChange_App_def handleQualityChange_App_def compressImage_App_def
      compressImage_App_canvas_def toBlob_def pixelCodec_def stripEnv_def sampleEnv_def
      stripState_def fl_values floor_numeral_div_rat Let_def)

section \<open>A promise that never settles\<close>

text \<open>
  Claim C10. In the single-encode \<open>compressImage\<close>, when the codec hands \<open>null\<close> to the
  callback (as it does for a canvas without pixels) the promise stays pending: the
  caller gets neither a result nor an error, and no input makes this promise reject.
\<close>

theorem compressImage_App_never_settles:
  "(toBlob (env_codec e) (compressImage_App_canvas img preset) ''image/jpeg'' (q / 100) = None \<longrightarrow>
      compressImage_App e img preset q = Pending)
   \<and> (\<forall>err. compressImage_App e img preset q \<noteq> Rejected err)"
  by (simp add: compressImage_App_def Let_def split: option.splits)

theorem compressImage_App_never_settles_witness:
  "toBlob (env_codec (sampleEnv pixelCodec))
      (compressImage_App_canvas \<lparr>img_width = 8000, img_height = 1\<rparr> Etsy)
      ''image/jpeg'' (80 / 100) = None
   \<and> compressImage_App (sampleEnv pixelCodec) \<lparr>img_width = 8000, img_height = 1\<rparr> Etsy 80
       = Pending"
  using compressImage_App_never_settles
    [of "sampleEnv pixelCodec" "\<lparr>img_width = 8000, img_height = 1\<rparr>" Etsy 80]
  by (simp add: toBlob_def sampleEnv_def pixelCodec_def compressImage_App_canvas_def
      fl_values floor_one_div_rat)

section \<open>Completion order\<close>

lemma map_of_filter_other:
  "j \<noteq> i \<Longrightarrow> map_of (filter (\<lambda>p. fst p \<noteq> i) xs) j = map_of xs j"
  by (induction xs) auto

lemma step_Complete_publishes:
  assumes "map_of (pending s) i = Some (cw, ch, r)" and "processImage_try e cw ch r = Inr c"
  shows "compressedImage (app (step e (Complete i) s)) = Some c"
  using assms by (simp add: processImage_finish_def)

lemma step_Complete_pending:
  assumes "map_of (pending s) i = Some (cw, ch, r)" and "j \<noteq> i"
  shows "map_of (pending (step e (Complete i) s)) j = map_of (pending s) j"
  using assms by (simp add: map_of_filter_other)

text \<open>
  Claim C3 says that of two requests for the same image the earlier one is never the
  one shown, whatever the order of completion. Nothing in \<open>processImage\<close> tells a
  superseded call from the latest one: each publishes when its encode completes. With a
  request at quality 80 issued before one at quality 60, and the second completing
  first, the result shown at the end is the one encoded at quality 80.
\<close>

theorem stale_result_published_counterexample:
  "compressedImage (app (run (sampleEnv (constCodec 1000))
      [Issue (sampleRequest ''etsy'' ''image/jpeg'' 80),
       Issue (sampleRequest ''etsy'' ''image/jpeg'' 60),
       Complete 1, Complete 0] sampleSystem)) =
   Some \<lparr>ci_blob = \<lparr>blob_type = ''image/jpeg'', blob_quality = 80 / 100, blob_size = 1000\<rparr>,
         ci_dataUrl = ''blob:compressed'', ci_width = 2000, ci_height = 1500, ci_size = 1000\<rparr>"
  by (simp add: run_def sampleSystem_def sampleState_def processImage_start_def
      processImage_finish_def processImage_try_def processImage_blob_def
      processImage_settings_def processImage_canvas_def processImage_img_def
      getPresetSettings_def resizeImage_def Math_min_def fl_values compressToTargetSize.simps
      toBlob_def
      sampleEnv_def constCodec_def sampleRequest_def sampleImageData_def)

text \<open>
  Claim C3, as the code has it. The result shown is that of the request whose encode
  completed last. For two pending requests that both succeed, whichever completes
  second overwrites the other: the later request wins only if it also completes later,
  and no result is discarded.
\<close>

theorem last_completion_wins:
  assumes "map_of (pending s) i = Some (cwi, chi, ri)"
    and "map_of (pending s) j = Some (cwj, chj, rj)"
    and "i \<noteq> j"
    and "processImage_try e cwi chi ri = Inr ci"
    and "processImage_try e cwj chj rj = Inr cj"
  shows "compressedImage (app (run e [Complete i, Complete j] s)) = Some cj
     \<and> compressedImage (app (run e [Complete j, Complete i] s)) = Some ci"
proof
  have "map_of (pending (step e (Complete i) s)) j = Some (cwj, chj, rj)"
    using step_Complete_pending [OF assms(1), of j e] assms(2,3) by simp
  then have "compressedImage (app (step e (Complete j) (step e (Complete i) s))) = Some cj"
    using assms(5) by (rule step_Complete_publishes)
  then show "compressedImage (app (run e [Complete i, Complete j] s)) = Some cj"
    by (simp add: run_def)
next
  have "map_of (pending (step e (Complete j) s)) i = Some (cwi, chi, ri)"
    using step_Complete_pending [OF assms(2), of i e] assms(1,3) by simp
  then have "compressedImage (app (step e (Complete i) (step e (Complete j) s))) = Some ci"
    using assms(4) by (rule step_Complete_publishes)
  then show "compressedImage (app (run e [Complete j, Complete i] s)) = Some ci"
    by (simp add: run_def)
qed

theorem last_completion_wins_witness:
  "compressedImage (app (run (sampleEnv (constCodec 1000))
      [Complete 0, Complete 1]
      (run (sampleEnv (constCodec 1000))
         [Issue (sampleRequest ''etsy'' ''image/jpeg'' 80),
          Issue (sampleRequest ''etsy'' ''image/jpeg'' 60)] sampleSystem))) =
   Some \<lparr>ci_blob = \<lparr>blob_type = ''image/jpeg'', blob_quality = 60 / 100, blob_size = 1000\<rparr>,
         ci_dataUrl = ''blob:compressed'', ci_width = 2000, ci_height = 1500, ci_size = 1000\<rparr>"
proof -
  let ?e = "sampleEnv (constCodec 1000)"
  let ?r1 = "sampleRequest ''etsy'' ''image/jpeg'' 80"
  let ?r2 = "sampleRequest ''etsy'' ''image/jpeg'' 60"
  let ?s = "run ?e [Issue ?r1, Issue ?r2] sampleSystem"
  let ?c1 = "\<lparr>ci_blob = \<lparr>blob_type = ''image/jpeg'', blob_quality = 80 / 100, blob_size = 1000\<rparr>,
         ci_dataUrl = ''blob:compressed'', ci_width = 2000, ci_height = 1500, ci_size = 1000\<rparr>"
  let ?c2 = "\<lparr>ci_blob = \<lparr>blob_type = ''image/jpeg'', blob_quality = 60 / 100, blob_size = 1000\<rparr>,
         ci_dataUrl = ''blob:compressed'', ci_width = 2000, ci_height = 1500, ci_size = 1000\<rparr>"
  have p: "pending ?s = [(0, (1920, 1080, ?r1)), (1, (1920, 1080, ?r2))]"
    by (simp add: run_def sampleSystem_def sampleState_def processImage_start_def)
  have p1: "map_of (pending ?s) 0 = Some (1920, 1080, ?r1)"
    and p2: "map_of (pending ?s) 1 = Some (1920, 1080, ?r2)"
    by (simp_all add: p)
  have t1: "processImage_try ?e 1920 1080 ?r1 = Inr ?c1"
    and t2: "processImage_try ?e 1920 1080 ?r2 = Inr ?c2"
    by (simp_all add: processImage_try_def processImage_blob_def
      processImage_settings_def processImage_canvas_def processImage_img_def
      getPresetSettings_def resizeImage_def Math_min_def fl_values compressToTargetSize.simps
      toBlob_def
      sampleEnv_def constCodec_def sampleRequest_def sampleImageData_def)
  from last_completion_wins [OF p1 p2 _ t1 t2] show ?thesis by simp
qed

section \<open>Invalid custom bounds\<close>

lemma isInteger_iff: "isInteger x \<longleftrightarrow> x \<in> \<int>"
proof
  assume "isInteger x"
  then have "of_int \<lfloor>x\<rfloor> = x" unfolding isInteger_def .
  then show "x \<in> \<int>" by (metis Ints_of_int)
next
  assume "x \<in> \<int>"
  then show "isInteger x" by (auto simp: isInteger_def elim: Ints_cases)
qed

lemma validateDimensions_None_iff:
  "validateDimensions w h = None \<longleftrightarrow>
     w \<in> \<int> \<and> h \<in> \<int> \<and> 0 < w \<and> 0 < h \<and> w \<le> 8000 \<and> h \<le> 8000"
  by (auto simp: validateDimensions_def isInteger_iff MAX_DIMENSIONS_def)

lemmas eval_typing = handleCustomDimensionChange_def parseInt_def isWhiteSpace_def
  digitValue_def sampleState_def render_of_def useEffect_recompress_def recompressImage_def
  timeoutCallback_def validateDimensions_def isInteger_def MAX_DIMENSIONS_def compressImage_def
  compressImage_canvas_def compressImage_dims_def scaleDown_def eval_round fl_values toBlob_def
  sampleEnv_def constCodec_def sampleImage_def sampleImageData_def Let_def

text \<open>
  Claim C8 says that every invalid custom bound that is entered, the text \<open>12.5\<close> among
  them, is rejected before any encode and leaves the published result unchanged. The
  handler of the input field passes the text through \<open>parseInt\<close>, so \<open>12.5\<close> is stored
  as 12, passes the validation, and the image is encoded 12 pixels wide and published.
  And when 9000 is typed, the effect of the new render rejects it with the validation
  message, but the debounce timer set by the handler still holds the \<open>recompressImage\<close>
  of the render before the change: when it fires it validates the old bounds, encodes,
  publishes and clears the message while 9000 is still the width in the state.
\<close>

theorem typed_bounds_counterexample:
  "useEffect_recompress (sampleEnv (constCodec 1000))
     (handleCustomDimensionChange Width ''12.5'' (sampleState Custom)) =
   ((sampleState Custom)
      \<lparr>customWidth := 12, recompressionTimeout := Some (render_of (sampleState Custom)),
       compressedImage :=
         Some \<lparr>ci_blob = \<lparr>blob_type = ''image/jpeg'', blob_quality = 80 / 100, blob_size = 1000\<rparr>,
               ci_dataUrl = ''data:image/jpeg'', ci_width = 12, ci_height = 9, ci_size = 1000\<rparr>\<rparr>,
    [(\<lparr>cv_width = 12, cv_height = 9, cv_img = sampleImage\<rparr>, ''image/jpeg'', 80 / 100)])
   \<and> useEffect_recompress (sampleEnv (constCodec 1000))
       (handleCustomDimensionChange Width ''9000'' (sampleState Custom)) =
     ((sampleState Custom)
        \<lparr>customWidth := 9000, recompressionTimeout := Some (render_of (sampleState Custom)),
         dimensionError := Some ''Width and height must be less than 8000px.''\<rparr>, [])
   \<and> timeoutCallback (sampleEnv (constCodec 1000))
       (fst (useEffect_recompress (sampleEnv (constCodec 1000))
          (handleCustomDimensionChange Width ''9000'' (sampleState Custom)))) =
     ((sampleState Custom)
        \<lparr>customWidth := 9000,
         compressedImage :=
           Some \<lparr>ci_blob = \<lparr>blob_type = ''image/jpeg'', blob_quality = 80 / 100, blob_size = 1000\<rparr>,
                 ci_dataUrl = ''data:image/jpeg'', ci_width = 1440, ci_height = 1080,
                 ci_size = 1000\<rparr>\<rparr>,
      [(\<lparr>cv_width = 1440, cv_height = 1080, cv_img = sampleImage\<rparr>, ''image/jpeg'', 80 / 100)])"
  by (simp add: eval_typing)

text \<open>
  Claim C8, as the code has it. A call of \<open>recompressImage\<close>, or a run of the
  recompression effect, that belongs to a render whose custom bounds are invalid (one
  of them not an integer, not positive, or above 8000) under the custom preset makes no
  call of the codec and leaves the published result unchanged, and the validation
  message becomes the dimension error (in \<open>recompressImage\<close> once the file has decoded,
  in the effect unless a compression is running). This is a statement about the render
  that holds the invalid bounds; the callback of a timer set in an earlier render reads
  the bounds of that earlier render.
\<close>

theorem invalid_bounds_rejected:
  assumes "rd_originalImage rd = Some orig" and "rd_selectedPreset rd = Custom"
    and "rd_customWidth rd \<notin> \<int> \<or> rd_customHeight rd \<notin> \<int>
         \<or> rd_customWidth rd \<le> 0 \<or> rd_customHeight rd \<le> 0
         \<or> rd_customWidth rd > 8000 \<or> rd_customHeight rd > 8000"
  shows "validateDimensions (rd_customWidth rd) (rd_customHeight rd) \<noteq> None
     \<and> snd (recompressImage e rd st) = []
     \<and> compressedImage (fst (recompressImage e rd st)) = compressedImage st
     \<and> ((\<exists>img. env_loadImage e (id_file orig) = Inr img) \<longrightarrow>
          dimensionError (fst (recompressImage e rd st))
            = validateDimensions (rd_customWidth rd) (rd_customHeight rd))
     \<and> (render_of st' = rd \<longrightarrow>
          snd (useEffect_recompress e st') = []
          \<and> compressedImage (fst (useEffect_recompress e st')) = compressedImage st'
          \<and> (\<not> isProcessing st' \<longrightarrow>
               dimensionError (fst (useEffect_recompress e st'))
                 = validateDimensions (rd_customWidth rd) (rd_customHeight rd)))"
proof -
  have bad: "validateDimensions (rd_customWidth rd) (rd_customHeight rd) \<noteq> None"
    using assms(3) by (auto simp: validateDimensions_None_iff)
  have r: "snd (recompressImage e rd st) = []
     \<and> compressedImage (fst (recompressImage e rd st)) = compressedImage st
     \<and> ((\<exists>img. env_loadImage e (id_file orig) = Inr img) \<longrightarrow>
          dimensionError (fst (recompressImage e rd st))
            = validateDimensions (rd_customWidth rd) (rd_customHeight rd))"
    using assms(1,2) bad by (auto simp: recompressImage_def Let_def split: sum.splits)
  have u: "snd (useEffect_recompress e st') = []
          \<and> compressedImage (fst (useEffect_recompress e st')) = compressedImage st'
          \<and> (\<not> isProcessing st' \<longrightarrow>
               dimensionError (fst (useEffect_recompress e st'))
                 = validateDimensions (rd_customWidth rd) (rd_customHeight rd))"
    if "render_of st' = rd"
  proof -
    from that have f: "originalImage st' = Some orig" "selectedPreset st' = Custom"
      "customWidth st' = rd_customWidth rd" "customHeight st' = rd_customHeight rd"
      using assms(1,2) by (auto simp: render_of_def)
    show ?thesis using bad by (simp add: useEffect_recompress_def f)
  qed
  from bad r u show ?thesis by blast
qed

theorem invalid_bounds_rejected_witness:
  "useEffect_recompress (sampleEnv (constCodec 1000)) ((sampleState Custom)\<lparr>customWidth := 0\<rparr>)
     = ((sampleState Custom)
          \<lparr>customWidth := 0,
           dimensionError := Some ''Width and height must be positive numbers.''\<rparr>, [])
   \<and> recompressImage (sampleEnv (constCodec 1000))
        (render_of ((sampleState Custom)\<lparr>customHeight := 9000\<rparr>)) (sampleState Custom)
     = ((sampleState Custom)
          \<lparr>dimensionError := Some ''Width and height must be less than 8000px.''\<rparr>, [])"
proof -
  let ?e = "sampleEnv (constCodec 1000)"
  let ?s0 = "(sampleState Custom)\<lparr>customWidth := 0\<rparr>"
  let ?s1 = "(sampleState Custom)\<lparr>customHeight := 9000\<rparr>"
  have l: "\<exists>img. env_loadImage ?e (id_file (sampleImageData ''image/jpeg'')) = Inr img"
    by (simp add: sampleEnv_def)
  note t = invalid_bounds_rejected [of _ "sampleImageData ''image/jpeg''" ?e]
  from t [of "render_of ?s0" "sampleState Custom" ?s0]
    t [of "render_of ?s1" "sampleState Custom" ?s1] l
  show ?thesis
    by (simp add: sampleState_def render_of_def validateDimensions_def isInteger_def
        MAX_DIMENSIONS_def useEffect_recompress_def recompressImage_def sampleEnv_def)
qed

end
